theory Spec2Isabelle
  imports Complex_Main
begin

section \<open>Python values\<close>

text \<open>
  A Python \<open>str\<close> is a sequence of code points and \<open>len\<close> counts code points, so a
  string is a list of code points here. The literals of the source are ASCII and are
  written through \<open>str\<close>.
\<close>

type_synonym codepoint = nat
type_synonym pystr = "codepoint list"

abbreviation str :: "string \<Rightarrow> pystr" where
  "str s \<equiv> map of_char s"

text \<open>
  The values that \<open>response.json()\<close> can return: \<open>None\<close>, booleans, numbers, strings,
  lists and dictionaries with string keys. A dictionary is an association list read
  with \<open>map_of\<close>.
\<close>

datatype pyval =
    PNone
  | PBool bool
  | PInt int
  | PFloat real
  | PStr pystr
  | PList "pyval list"
  | PDict "(pystr \<times> pyval) list"

text \<open>
  The exception classes that occur: the first three are subclasses of
  \<open>requests.exceptions.RequestException\<close> (raised by \<open>requests.post\<close>, by
  \<open>raise_for_status\<close> and by \<open>response.json()\<close>), the others are builtins.
\<close>

datatype exn =
    ConnectionError | HTTPError | JSONDecodeError
  | KeyError | IndexError | TypeError | UnicodeEncodeError

fun is_RequestException :: "exn \<Rightarrow> bool" where
  "is_RequestException ConnectionError = True"
| "is_RequestException HTTPError = True"
| "is_RequestException JSONDecodeError = True"
| "is_RequestException _ = False"

subsection \<open>Slices and ranges\<close>

text \<open>
  \<open>xs[start:stop]\<close> with step 1: a negative bound counts from the end, and both bounds
  are clamped to \<open>0 .. len(xs)\<close>. \<open>None\<close> is an omitted bound.
\<close>

definition clamp_index :: "int \<Rightarrow> int \<Rightarrow> int" where
  "clamp_index n i = (if i < 0 then max (i + n) 0 else min i n)"

definition py_slice :: "'a list \<Rightarrow> int option \<Rightarrow> int option \<Rightarrow> 'a list" where
  "py_slice xs start stop =
     (let n = int (length xs);
          lo = (case start of None \<Rightarrow> 0 | Some i \<Rightarrow> clamp_index n i);
          hi = (case stop of None \<Rightarrow> n | Some j \<Rightarrow> clamp_index n j)
      in take (nat (hi - lo)) (drop (nat lo) xs))"

text \<open>\<open>range(start, stop, step)\<close> for a positive step.\<close>

definition py_range :: "int \<Rightarrow> int \<Rightarrow> int \<Rightarrow> int list" where
  "py_range start stop step =
     map (\<lambda>k. start + int k * step) [0 ..< nat ((stop - start + step - 1) div step)]"

section \<open>Conversation store\<close>

datatype role = User | Assistant

record turn =
  role :: role
  content :: pyval

type_synonym channel = int
type_synonym store = "channel \<rightharpoonup> turn list"

text \<open>\<open>conversation_histories.get(channel_id, [])\<close>\<close>

definition get_history :: "store \<Rightarrow> channel \<Rightarrow> turn list" where
  "get_history s ch = (case s ch of None \<Rightarrow> [] | Some h \<Rightarrow> h)"

text \<open>
  \<open>update_conversation_history\<close>: creates the entry if the channel has none, extends it
  with the user turn and the assistant turn, and keeps \<open>h[-20:]\<close> when more than 20
  turns are held.
\<close>

definition update_conversation_history :: "store \<Rightarrow> channel \<Rightarrow> pyval \<Rightarrow> pyval \<Rightarrow> store" where
  "update_conversation_history s channel_id user_message assistant_response =
     (let s1 = (if channel_id \<notin> dom s then s(channel_id \<mapsto> []) else s);
          h = the (s1 channel_id)
              @ [\<lparr>role = User, content = user_message\<rparr>,
                 \<lparr>role = Assistant, content = assistant_response\<rparr>];
          s2 = s1(channel_id \<mapsto> h)
      in if length h > 20 then s2(channel_id \<mapsto> py_slice h (Some (- 20)) None) else s2)"

text \<open>A sequence of appends on one channel, each a pair of a question and a reply.\<close>

fun appends :: "channel \<Rightarrow> (pyval \<times> pyval) list \<Rightarrow> store \<Rightarrow> store" where
  "appends ch [] s = s"
| "appends ch ((q, r) # qrs) s = appends ch qrs (update_conversation_history s ch q r)"

text \<open>The turns that a sequence of appends hands to the store, in order.\<close>

fun turns_of :: "(pyval \<times> pyval) list \<Rightarrow> turn list" where
  "turns_of [] = []"
| "turns_of ((q, r) # qrs) =
     \<lparr>role = User, content = q\<rparr> # \<lparr>role = Assistant, content = r\<rparr> # turns_of qrs"

text \<open>The last \<open>n\<close> elements of a sequence, in their order (the whole sequence if shorter).\<close>

definition most_recent :: "nat \<Rightarrow> 'a list \<Rightarrow> 'a list" where
  "most_recent n xs = rev (take n (rev xs))"

section \<open>Completion client\<close>

record payload =
  model :: pystr
  messages :: "turn list"
  temperature :: real
  max_tokens :: int

record request =
  url :: pystr
  authorization :: pystr
  content_type :: pystr
  json :: payload

text \<open>
  What the network does with a request: no connection can be made, or the service
  returns a response with a status code and a body. The body is recorded as the value
  \<open>response.json()\<close> decodes, \<open>None\<close> when it is not JSON.
\<close>

record response =
  status_code :: nat
  body :: "pyval option"

datatype http_outcome = ConnectionFailed | Returned response

text \<open>
  \<open>requests.post(url, headers=headers, json=payload)\<close>. The first component is the
  record of the call: the request that the caller hands over, whatever becomes of it.
  The second is the outcome: \<open>ConnectionError\<close> when no connection can be made;
  \<open>UnicodeEncodeError\<close>, which is not a \<open>RequestException\<close>, when the connection stands
  and a header value has a character outside Latin-1, since the headers are sent in
  that encoding; the response otherwise.
\<close>

definition latin1 :: "pystr \<Rightarrow> bool" where
  "latin1 s = list_all (\<lambda>c. c \<le> 255) s"

definition requests_post :: "(request \<Rightarrow> http_outcome) \<Rightarrow> request \<Rightarrow> request list \<times> (exn + response)" where
  "requests_post network req =
     ([req],
      case network req of
        ConnectionFailed \<Rightarrow> Inl ConnectionError
      | Returned r \<Rightarrow>
          if latin1 (authorization req) \<and> latin1 (content_type req) then Inr r
          else Inl UnicodeEncodeError)"

text \<open>\<open>raise_for_status\<close> raises \<open>HTTPError\<close> for a 4xx or 5xx status code.\<close>

definition raise_for_status :: "response \<Rightarrow> exn + unit" where
  "raise_for_status r =
     (if 400 \<le> status_code r \<and> status_code r < 600 then Inl HTTPError else Inr ())"

text \<open>
  \<open>response.json()\<close> raises \<open>requests.exceptions.JSONDecodeError\<close>, a
  \<open>RequestException\<close>, when the body does not decode.
\<close>

definition response_json :: "response \<Rightarrow> exn + pyval" where
  "response_json r = (case body r of None \<Rightarrow> Inl JSONDecodeError | Some v \<Rightarrow> Inr v)"

text \<open>
  Subscription \<open>v[k]\<close> with a string key: a dictionary raises \<open>KeyError\<close> for an absent
  key; every other value raises \<open>TypeError\<close> (a list and a string take integer indices,
  \<open>None\<close>, booleans and numbers are not subscriptable).
\<close>

fun getitem_key :: "pyval \<Rightarrow> pystr \<Rightarrow> exn + pyval" where
  "getitem_key (PDict kvs) k = (case map_of kvs k of None \<Rightarrow> Inl KeyError | Some v \<Rightarrow> Inr v)"
| "getitem_key _ k = Inl TypeError"

text \<open>
  Subscription \<open>v[i]\<close> with an integer: a list and a string raise \<open>IndexError\<close> out of
  range (a negative index counts from the end); a dictionary decoded from JSON has
  string keys only, so it raises \<open>KeyError\<close>; the other values raise \<open>TypeError\<close>.
\<close>

definition index_of :: "nat \<Rightarrow> int \<Rightarrow> nat option" where
  "index_of n i =
     (let j = (if i < 0 then i + int n else i)
      in if 0 \<le> j \<and> j < int n then Some (nat j) else None)"

fun getitem_index :: "pyval \<Rightarrow> int \<Rightarrow> exn + pyval" where
  "getitem_index (PList xs) i =
     (case index_of (length xs) i of None \<Rightarrow> Inl IndexError | Some j \<Rightarrow> Inr (xs ! j))"
| "getitem_index (PStr s) i =
     (case index_of (length s) i of None \<Rightarrow> Inl IndexError | Some j \<Rightarrow> Inr (PStr [s ! j]))"
| "getitem_index (PDict kvs) i = Inl KeyError"
| "getitem_index _ i = Inl TypeError"

text \<open>Sequencing of statements that may raise: the first exception ends the block.\<close>

definition and_then :: "exn + 'a \<Rightarrow> ('a \<Rightarrow> exn + 'b) \<Rightarrow> exn + 'b" where
  "and_then m f = (case m of Inl e \<Rightarrow> Inl e | Inr x \<Rightarrow> f x)"

definition DEEPSEEK_API_URL :: pystr where
  "DEEPSEEK_API_URL = str ''https://api.deepseek.com/v1/chat/completions''"

definition contacting_error :: pystr where
  "contacting_error = str ''Sorry, I encountered an error while contacting DeepSeek API.''"

definition parsing_error :: pystr where
  "parsing_error = str ''Sorry, I had trouble understanding the response from DeepSeek.''"

text \<open>
  The start of \<open>call_deepseek_api\<close>: headers, the messages array and the payload.
  The history is added when it is truthy (neither \<open>None\<close> nor empty). An unset API key
  is \<open>None\<close> and is formatted as such.
\<close>

definition build_messages :: "pystr \<Rightarrow> turn list option \<Rightarrow> turn list" where
  "build_messages message_content conversation_history =
     (let messages = [];
          messages = (case conversation_history of
                        None \<Rightarrow> messages
                      | Some h \<Rightarrow> if h \<noteq> [] then messages @ h else messages)
      in messages @ [\<lparr>role = User, content = PStr message_content\<rparr>])"

definition build_request :: "pystr option \<Rightarrow> pystr \<Rightarrow> pystr \<Rightarrow> turn list option \<Rightarrow> request" where
  "build_request api_key model_name message_content conversation_history =
     \<lparr>url = DEEPSEEK_API_URL,
      authorization = str ''Bearer '' @ (case api_key of None \<Rightarrow> str ''None'' | Some k \<Rightarrow> k),
      content_type = str ''application/json'',
      json = \<lparr>model = model_name,
              messages = build_messages message_content conversation_history,
              temperature = 0.7,
              max_tokens = 2000\<rparr>\<rparr>"

text \<open>
  \<open>call_deepseek_api\<close>: the request is built and handed to \<open>requests.post\<close> inside the
  \<open>try\<close> block, whose two handlers follow. The result is the record of the requests
  that the function posted and what it returns; an exception that neither handler
  catches leaves the function (\<open>Inl\<close>). The two \<open>print\<close> calls write to the console
  only.
\<close>

definition call_deepseek_api ::
  "(request \<Rightarrow> http_outcome) \<Rightarrow> pystr option \<Rightarrow> pystr \<Rightarrow> pystr \<Rightarrow> turn list option
     \<Rightarrow> request list \<times> (exn + pyval)" where
  "call_deepseek_api post api_key model_name message_content conversation_history =
     (let (posted, outcome) =
            requests_post post (build_request api_key model_name message_content conversation_history);
          attempt =
            and_then outcome
              (\<lambda>response. and_then (raise_for_status response)
              (\<lambda>_. and_then (response_json response)
              (\<lambda>result. and_then (getitem_key result (str ''choices''))
              (\<lambda>choices. and_then (getitem_index choices 0)
              (\<lambda>choice. and_then (getitem_key choice (str ''message''))
              (\<lambda>message. getitem_key message (str ''content'')))))))
      in (posted,
          case attempt of
            Inr text \<Rightarrow> Inr text
          | Inl e \<Rightarrow>
              if is_RequestException e then Inr (PStr contacting_error)
              else if e = KeyError \<or> e = IndexError then Inr (PStr parsing_error)
              else Inl e))"

section \<open>Command handlers\<close>

record bot_state =
  DEEPSEEK_API_KEY :: "pystr option"
  DEEPSEEK_MODEL :: pystr
  conversation_histories :: store

text \<open>The state after the module is loaded: the store is the empty dictionary.\<close>

definition initial_state :: "pystr option \<Rightarrow> pystr \<Rightarrow> bot_state" where
  "initial_state api_key model_name =
     \<lparr>DEEPSEEK_API_KEY = api_key, DEEPSEEK_MODEL = model_name, conversation_histories = Map.empty\<rparr>"

text \<open>
  What a handler does, in program order: the typing indicator of \<open>ctx.typing()\<close>, each
  request that the completion client posted, the call of \<open>update_conversation_history\<close>
  and each \<open>ctx.send\<close> with the value it is given. A send is recorded as the call; what
  the platform does with the message is not part of the model.
\<close>

datatype event =
    TypingBegin channel
  | TypingEnd channel
  | ApiCall request
  | HistoryUpdated channel pyval pyval
  | Send channel pyval

text \<open>\<open>len(v)\<close>: defined on strings, lists and dictionaries (the number of keys).\<close>

fun py_len :: "pyval \<Rightarrow> exn + nat" where
  "py_len (PStr s) = Inr (length s)"
| "py_len (PList xs) = Inr (length xs)"
| "py_len (PDict kvs) = Inr (length (remdups (map fst kvs)))"
| "py_len _ = Inl TypeError"

text \<open>
  \<open>v[i:j]\<close>: a slice of a string or of a list; a dictionary raises (\<open>TypeError\<close> for the
  unhashable slice; Python 3.12 on raises \<open>KeyError\<close> in its place), the other values
  are not subscriptable.
\<close>

fun getitem_slice :: "pyval \<Rightarrow> int \<Rightarrow> int \<Rightarrow> exn + pyval" where
  "getitem_slice (PStr s) i j = Inr (PStr (py_slice s (Some i) (Some j)))"
| "getitem_slice (PList xs) i j = Inr (PList (py_slice xs (Some i) (Some j)))"
| "getitem_slice _ i j = Inl TypeError"

text \<open>A list comprehension whose element expression may raise.\<close>

fun comprehension :: "('a \<Rightarrow> exn + 'b) \<Rightarrow> 'a list \<Rightarrow> exn + 'b list" where
  "comprehension f [] = Inr []"
| "comprehension f (x # xs) =
     (case f x of
        Inl e \<Rightarrow> Inl e
      | Inr y \<Rightarrow> (case comprehension f xs of Inl e \<Rightarrow> Inl e | Inr ys \<Rightarrow> Inr (y # ys)))"

text \<open>
  The end of \<open>ask_deepseek\<close>: a response longer than 2000 is cut into
  \<open>response[i:i+2000]\<close> for \<open>i\<close> in \<open>range(0, len(response), 2000)\<close> and each chunk is
  sent; a shorter one is sent as it is. The result is the sends and the exception
  raised, if any.
\<close>

definition send_response :: "channel \<Rightarrow> pyval \<Rightarrow> event list \<times> exn option" where
  "send_response ch response =
     (case py_len response of
        Inl e \<Rightarrow> ([], Some e)
      | Inr n \<Rightarrow>
          if n > 2000 then
            (case comprehension (\<lambda>i. getitem_slice response i (i + 2000)) (py_range 0 (int n) 2000) of
               Inl e \<Rightarrow> ([], Some e)
             | Inr chunks \<Rightarrow> (map (Send ch) chunks, None))
          else ([Send ch response], None))"

text \<open>
  \<open>ask_deepseek\<close>: reads the history of the channel, calls the completion client,
  updates the store, then sends. The result is the new state, the events and the
  exception that left the handler, if any.
\<close>

definition ask_deepseek ::
  "(request \<Rightarrow> http_outcome) \<Rightarrow> bot_state \<Rightarrow> channel \<Rightarrow> pystr \<Rightarrow> bot_state \<times> event list \<times> exn option" where
  "ask_deepseek post st ch question =
     (let history = get_history (conversation_histories st) ch;
          (posted, returned) =
            call_deepseek_api post (DEEPSEEK_API_KEY st) (DEEPSEEK_MODEL st) question (Some history)
      in case returned of
           Inl e \<Rightarrow> (st, [TypingBegin ch] @ map ApiCall posted @ [TypingEnd ch], Some e)
         | Inr response \<Rightarrow>
             (let st' = st\<lparr>conversation_histories :=
                            update_conversation_history (conversation_histories st) ch (PStr question) response\<rparr>;
                  (sends, raised) = send_response ch response
              in (st',
                  [TypingBegin ch] @ map ApiCall posted @ [HistoryUpdated ch (PStr question) response]
                    @ sends @ [TypingEnd ch],
                  raised)))"

definition clear_history :: "bot_state \<Rightarrow> channel \<Rightarrow> bot_state \<times> event list" where
  "clear_history st ch =
     (if ch \<in> dom (conversation_histories st)
      then (st\<lparr>conversation_histories := (conversation_histories st)(ch := None)\<rparr>,
            [Send ch (PStr (str ''Conversation history cleared!''))])
      else (st, [Send ch (PStr (str ''No conversation history to clear.''))]))"

definition set_model :: "bot_state \<Rightarrow> channel \<Rightarrow> pystr \<Rightarrow> bot_state \<times> event list" where
  "set_model st ch model_name =
     (st\<lparr>DEEPSEEK_MODEL := model_name\<rparr>, [Send ch (PStr (str ''Model set to: '' @ model_name))])"

definition help_text :: pystr where
  "help_text = str (''\<newline>**DeepSeek Discord Bot Commands:**\<newline>''
     @ ''`!ask <question>` - Ask DeepSeek a question\<newline>''
     @ ''`!clear` - Clear conversation history for this channel\<newline>''
     @ ''`!model <model_name>` - Change the DeepSeek model\<newline>''
     @ ''`!help` - Show this help message\<newline>''
     @ ''\<newline>''
     @ ''**Example:** `!ask What is artificial intelligence?`\<newline>'')"

definition bot_help :: "channel \<Rightarrow> event list" where
  "bot_help ch = [Send ch (PStr help_text)]"

text \<open>
  \<open>on_command_error\<close>: the error is \<open>MissingRequiredArgument\<close> or any other error of the
  command framework, here the one raised for an argument that cannot be parsed and
  the one that wraps an exception raised by a handler. The text of an error
  (\<open>str(error)\<close>) is the framework's and is a parameter.
\<close>

datatype command_error = MissingRequiredArgument | ArgumentParsingError | CommandInvokeError exn

definition usage_hint :: pystr where
  "usage_hint = str ''Please provide a question after the command. Example: `!ask What is AI?`''"

definition on_command_error :: "(command_error \<Rightarrow> pystr) \<Rightarrow> channel \<Rightarrow> command_error \<Rightarrow> event list" where
  "on_command_error error_text ch error =
     (if error = MissingRequiredArgument then [Send ch (PStr usage_hint)]
      else [Send ch (PStr (str ''An error occurred: '' @ error_text error))])"

section \<open>Command dispatch\<close>

text \<open>
  The command framework binds the parameters of a handler from the text after the
  command name. \<open>question\<close> is declared keyword-only and without a default: the
  framework skips the white space, raises \<open>MissingRequiredArgument\<close> when nothing is
  left, and passes the stripped rest otherwise. White space is what \<open>str.isspace\<close>
  accepts.
\<close>

definition py_isspace :: "codepoint \<Rightarrow> bool" where
  "py_isspace c \<longleftrightarrow>
     (9 \<le> c \<and> c \<le> 13) \<or> (28 \<le> c \<and> c \<le> 32) \<or> c = 133 \<or> c = 160 \<or> c = 5760
     \<or> (8192 \<le> c \<and> c \<le> 8202) \<or> c = 8232 \<or> c = 8233 \<or> c = 8239 \<or> c = 8287 \<or> c = 12288"

definition py_strip :: "pystr \<Rightarrow> pystr" where
  "py_strip s = rev (dropWhile py_isspace (rev (dropWhile py_isspace s)))"

definition rest_argument :: "pystr \<Rightarrow> pystr option" where
  "rest_argument rest =
     (let view = dropWhile py_isspace rest
      in if view = [] then None else Some (py_strip view))"

text \<open>
  \<open>model_name\<close> is a required positional parameter. The framework reads it as one word
  or as one quoted string, and the handler runs only when that succeeds. The outcome of
  the reading is the input here: the name that is bound; nothing, when only white space
  follows the command name (\<open>MissingRequiredArgument\<close>); or a text that the framework
  refuses, such as a quotation that is never closed (an \<open>ArgumentParsingError\<close>).
\<close>

datatype argument = Bound pystr | Absent | Malformed

datatype invocation =
    Ask pystr
  | Clear
  | SetModel argument
  | Help

record world =
  service :: "request \<Rightarrow> http_outcome"
  error_text :: "command_error \<Rightarrow> pystr"

definition dispatch :: "world \<Rightarrow> bot_state \<Rightarrow> channel \<Rightarrow> invocation \<Rightarrow> bot_state \<times> event list" where
  "dispatch w st ch cmd =
     (case cmd of
        Ask rest \<Rightarrow>
          (case rest_argument rest of
             None \<Rightarrow> (st, on_command_error (error_text w) ch MissingRequiredArgument)
           | Some question \<Rightarrow>
               (case ask_deepseek (service w) st ch question of
                  (st', evs, None) \<Rightarrow> (st', evs)
                | (st', evs, Some e) \<Rightarrow>
                    (st', evs @ on_command_error (error_text w) ch (CommandInvokeError e))))
      | Clear \<Rightarrow> clear_history st ch
      | SetModel Absent \<Rightarrow> (st, on_command_error (error_text w) ch MissingRequiredArgument)
      | SetModel Malformed \<Rightarrow> (st, on_command_error (error_text w) ch ArgumentParsingError)
      | SetModel (Bound model_name) \<Rightarrow> set_model st ch model_name
      | Help \<Rightarrow> (st, bot_help ch))"

text \<open>A run of the bot: the messages in the order the handlers run, each in its world.\<close>

fun run :: "bot_state \<Rightarrow> (world \<times> channel \<times> invocation) list \<Rightarrow> bot_state \<times> event list" where
  "run st [] = (st, [])"
| "run st ((w, ch, cmd) # rest) =
     (let (st1, evs1) = dispatch w st ch cmd;
          (st2, evs2) = run st1 rest
      in (st2, evs1 @ evs2))"

section \<open>Notions used to state the properties\<close>

text \<open>
  Cutting a sequence into consecutive pieces of a fixed size \<open>n\<close>: the first \<open>n\<close>
  elements, then the next \<open>n\<close>, and so on; the last piece holds what is left.
\<close>

function split_every :: "nat \<Rightarrow> 'a list \<Rightarrow> 'a list list" where
  "split_every n xs = (if n = 0 \<or> xs = [] then [] else take n xs # split_every n (drop n xs))"
  by pat_completeness auto
termination
  by (relation "measure (\<lambda>(n, xs). length xs)") auto

declare split_every.simps [simp del]

text \<open>The messages sent, and the requests posted, in the order of the events.\<close>

fun sends :: "event list \<Rightarrow> (channel \<times> pyval) list" where
  "sends [] = []"
| "sends (Send ch v # evs) = (ch, v) # sends evs"
| "sends (_ # evs) = sends evs"

fun api_calls :: "event list \<Rightarrow> request list" where
  "api_calls [] = []"
| "api_calls (ApiCall req # evs) = req # api_calls evs"
| "api_calls (_ # evs) = api_calls evs"

text \<open>
  Two orders of the store update and the sends within a sequence of events:
  \<open>update_after_sends\<close> holds when the store is updated and nothing is sent from then
  on; \<open>update_before_sends\<close> holds when the store is updated and nothing was sent
  until then.
\<close>

fun update_after_sends :: "event list \<Rightarrow> bool" where
  "update_after_sends [] = False"
| "update_after_sends (HistoryUpdated ch q r # evs) = (sends evs = [])"
| "update_after_sends (_ # evs) = update_after_sends evs"

fun update_before_sends :: "event list \<Rightarrow> bool" where
  "update_before_sends [] = False"
| "update_before_sends (HistoryUpdated ch q r # evs) = True"
| "update_before_sends (Send ch v # evs) = False"
| "update_before_sends (_ # evs) = update_before_sends evs"

text \<open>
  The one command that assigns the model selection, and the commands that reach the
  completion client.
\<close>

fun changes_model :: "invocation \<Rightarrow> bool" where
  "changes_model (SetModel (Bound model_name)) = True"
| "changes_model _ = False"

fun asks_question :: "invocation \<Rightarrow> bool" where
  "asks_question (Ask rest) = (rest_argument rest \<noteq> None)"
| "asks_question _ = False"

text \<open>A history made of (user, assistant) pairs.\<close>

fun paired :: "turn list \<Rightarrow> bool" where
  "paired [] = True"
| "paired [t] = False"
| "paired (u # a # ts) = (role u = User \<and> role a = Assistant \<and> paired ts)"

text \<open>
  A response body of the expected shape, \<open>{"choices": [{"message": {"content": v}}]}\<close>,
  and a service that answers every request with status 200 and such a body.
\<close>

definition completion_body :: "pyval \<Rightarrow> pyval" where
  "completion_body v =
     PDict [(str ''choices'', PList [PDict [(str ''message'', PDict [(str ''content'', v)])]])]"

definition answering :: "pyval \<Rightarrow> request \<Rightarrow> http_outcome" where
  "answering v req = Returned \<lparr>status_code = 200, body = Some (completion_body v)\<rparr>"

section \<open>Properties of slices\<close>

lemma py_slice_last: "0 < k \<Longrightarrow> py_slice xs (Some (- int k)) None = drop (length xs - k) xs"
  by (auto simp: py_slice_def clamp_index_def Let_def max_def nat_diff_distrib')

lemma most_recent_drop: "most_recent n xs = drop (length xs - n) xs"
  by (simp add: most_recent_def rev_take)

section \<open>The window of the conversation store\<close>

lemma update_history:
  "get_history (update_conversation_history s ch q r) ch =
     most_recent 20 (get_history s ch @ [\<lparr>role = User, content = q\<rparr>, \<lparr>role = Assistant, content = r\<rparr>])"
proof -
  have "py_slice h (Some (- 20)) None = drop (length h - 20) h" for h :: "turn list"
    using py_slice_last [where xs = h and k = 20] by simp
  then show ?thesis
    by (auto simp: update_conversation_history_def get_history_def Let_def most_recent_drop
        split: option.splits)
qed

lemma update_history_other:
  "c \<noteq> ch \<Longrightarrow> update_conversation_history s ch q r c = s c"
  by (simp add: update_conversation_history_def Let_def)

lemma update_history_dom: "ch \<in> dom (update_conversation_history s ch q r)"
  by (simp add: update_conversation_history_def Let_def)

lemma most_recent_append:
  "most_recent n (most_recent n xs @ ys) = most_recent n (xs @ ys)"
  by (simp add: most_recent_def min_def)

lemma appends_history:
  "length (get_history s ch) \<le> 20 \<Longrightarrow>
     get_history (appends ch qrs s) ch = most_recent 20 (get_history s ch @ turns_of qrs)"
proof (induction qrs arbitrary: s)
  case Nil
  then show ?case by (simp add: most_recent_drop)
next
  case (Cons p qrs)
  obtain q r where p: "p = (q, r)" by (cases p)
  let ?s = "update_conversation_history s ch q r"
  have len: "length (get_history ?s ch) \<le> 20"
    by (simp add: update_history most_recent_drop)
  have "get_history (appends ch (p # qrs) s) ch = most_recent 20 (get_history ?s ch @ turns_of qrs)"
    using Cons.IH [OF len] by (simp add: p)
  also have "\<dots> = most_recent 20 (get_history s ch @ turns_of (p # qrs))"
    by (simp add: update_history most_recent_append p)
  finally show ?case .
qed

lemma appends_dom: "ch \<in> dom s \<Longrightarrow> ch \<in> dom (appends ch qrs s)"
proof (induction qrs arbitrary: s)
  case Nil
  then show ?case by simp
next
  case (Cons p qrs)
  obtain q r where p: "p = (q, r)" by (cases p)
  show ?case
    unfolding p appends.simps by (rule Cons.IH) (rule update_history_dom)
qed

lemma appends_other: "c \<noteq> ch \<Longrightarrow> appends ch qrs s c = s c"
  by (induction qrs arbitrary: s) (auto simp: update_history_other)

lemma length_turns_of: "length (turns_of qrs) = 2 * length qrs"
  by (induction qrs) auto

lemma length_most_recent: "length (most_recent n xs) \<le> n"
  by (simp add: most_recent_def)

text \<open>
  C1. Take a store in which the channel holds at most 20 turns (none, when the channel
  is absent) and append any sequence of (question, reply) pairs to that channel. Each
  append hands the user turn and then the assistant turn to the store. Afterwards the
  channel holds at most 20 turns, they are the last 20 of the turns held before followed
  by the appended ones, in their order, and the channel has an entry as soon as one
  pair was appended.
\<close>

theorem store_window:
  assumes "length (get_history s ch) \<le> 20"
  shows "length (get_history (appends ch qrs s) ch) \<le> 20
       \<and> get_history (appends ch qrs s) ch = most_recent 20 (get_history s ch @ turns_of qrs)
       \<and> (qrs \<noteq> [] \<longrightarrow> ch \<in> dom (appends ch qrs s))"
proof -
  have eq: "get_history (appends ch qrs s) ch = most_recent 20 (get_history s ch @ turns_of qrs)"
    using assms by (rule appends_history)
  have "ch \<in> dom (appends ch qrs s)" if "qrs \<noteq> []"
  proof (cases qrs)
    case Nil
    with that show ?thesis by simp
  next
    case (Cons p ps)
    obtain q r where "p = (q, r)" by (cases p)
    with Cons show ?thesis
      using appends_dom [OF update_history_dom, of ch ps s q r] by simp
  qed
  with eq show ?thesis by (simp add: length_most_recent)
qed

text \<open>
  Eleven appends to an absent channel hand 22 turns to the store: the first pair is
  evicted and the other ten pairs are held.
\<close>

theorem store_window_witness:
  "length (get_history Map.empty 7) \<le> 20
   \<and> length (get_history (appends 7 (map (\<lambda>k. (PInt (int k), PStr [k])) [0 ..< 11]) Map.empty) 7) \<le> 20
   \<and> get_history (appends 7 (map (\<lambda>k. (PInt (int k), PStr [k])) [0 ..< 11]) Map.empty) 7
       = turns_of (map (\<lambda>k. (PInt (int k), PStr [k])) [1 ..< 11])
   \<and> 7 \<in> dom (appends 7 (map (\<lambda>k. (PInt (int k), PStr [k])) [0 ..< 11]) Map.empty)"
proof -
  have h: "length (get_history Map.empty 7) \<le> 20" by (simp add: get_history_def)
  have "most_recent 20 (get_history Map.empty 7 @ turns_of (map (\<lambda>k. (PInt (int k), PStr [k])) [0 ..< 11]))
      = turns_of (map (\<lambda>k. (PInt (int k), PStr [k])) [1 ..< 11])"
    by (simp add: get_history_def most_recent_def upt_rec)
  with h store_window [OF h, of "map (\<lambda>k. (PInt (int k), PStr [k])) [0 ..< 11]"]
  show ?thesis by (simp add: length_turns_of)
qed

section \<open>Chunks of a reply\<close>

lemma py_slice_window:
  "py_slice xs (Some (int a)) (Some (int a + int b)) = take b (drop a xs)"
proof (cases "a \<le> length xs")
  case True
  have lo: "clamp_index (int (length xs)) (int a) = int a"
    using True by (simp add: clamp_index_def)
  have hi: "clamp_index (int (length xs)) (int a + int b) = int (min (a + b) (length xs))"
    by (simp add: clamp_index_def min_def)
  have "nat (int (min (a + b) (length xs)) - int a) = min b (length xs - a)"
    using True by arith
  then have "py_slice xs (Some (int a)) (Some (int a + int b)) = take (min b (length (drop a xs))) (drop a xs)"
    by (simp add: py_slice_def Let_def lo hi)
  then show ?thesis by (simp add: min_def)
next
  case False
  then show ?thesis
    by (simp add: py_slice_def clamp_index_def Let_def min_def)
qed

lemma py_range_from_0:
  "0 < d \<Longrightarrow> py_range 0 (int n) (int d) = map (\<lambda>k. int (k * d)) [0 ..< (n + d - 1) div d]"
proof -
  assume d: "0 < d"
  have "int n - 0 + int d - 1 = int (n + d - 1)" using d by simp
  then have "nat ((int n - 0 + int d - 1) div int d) = (n + d - 1) div d"
    by (simp only: zdiv_int [symmetric] nat_int)
  then show ?thesis by (simp add: py_range_def)
qed

lemma comprehension_total: "comprehension (\<lambda>x. Inr (g x)) xs = Inr (map g xs)"
  by (induction xs) auto

lemma chunk_count:
  assumes "0 < n" and "0 < (l::nat)"
  shows "(l + n - 1) div n = Suc ((l - n + n - 1) div n)"
proof (cases "n \<le> l")
  case True
  with assms have "l + n - 1 = (l - n + n - 1) + n" by simp
  then have "(l + n - 1) div n = ((l - n + n - 1) + n) div n" by simp
  also have "\<dots> = (l - n + n - 1) div n + 1"
    by (rule div_add_self2) (use assms in simp)
  finally show ?thesis by simp
next
  case False
  with assms have "(l + n - 1) div n = 1"
    by (intro div_nat_eqI) simp_all
  moreover from False assms have "(l - n + n - 1) div n = 0" by simp
  ultimately show ?thesis by simp
qed

lemma split_every_map:
  "0 < n \<Longrightarrow> map (\<lambda>k. take n (drop (k * n) xs)) [0 ..< (length xs + n - 1) div n] = split_every n xs"
proof (induction n xs rule: split_every.induct)
  case (1 n xs)
  show ?case
  proof (cases "xs = []")
    case True
    with "1.prems" show ?thesis by (simp add: split_every.simps [of n "[]"])
  next
    case False
    let ?m = "(length (drop n xs) + n - 1) div n"
    have cnt: "(length xs + n - 1) div n = Suc ?m"
      using chunk_count [of n "length xs"] "1.prems" False by simp
    have shift: "take n (drop (Suc k * n) xs) = take n (drop (k * n) (drop n xs))" for k
      by (simp add: add.commute)
    have "map (\<lambda>k. take n (drop (k * n) xs)) [0 ..< Suc ?m]
        = take n xs # map (\<lambda>k. take n (drop (Suc k * n) xs)) [0 ..< ?m]"
      unfolding upt_conv_Cons [OF zero_less_Suc] map_Suc_upt [symmetric] by (simp add: comp_def)
    also have "\<dots> = take n xs # split_every n (drop n xs)"
      unfolding shift using "1.IH" "1.prems" False by simp
    finally have "map (\<lambda>k. take n (drop (k * n) xs)) [0 ..< (length xs + n - 1) div n]
        = take n xs # split_every n (drop n xs)"
      unfolding cnt .
    moreover have "split_every n xs = take n xs # split_every n (drop n xs)"
      using "1.prems" False by (simp add: split_every.simps [of n xs])
    ultimately show ?thesis by simp
  qed
qed


lemma send_response_text:
  "send_response ch (PStr r) =
     (map (\<lambda>t. Send ch (PStr t)) (if 2000 < length r then split_every 2000 r else [r]), None)"
proof -
  have "py_range 0 (int (length r)) 2000 = map (\<lambda>k. int (k * 2000)) [0 ..< (length r + 2000 - 1) div 2000]"
    using py_range_from_0 [of 2000 "length r"] by simp
  moreover have "getitem_slice (PStr r) (int a * 2000) (int a * 2000 + 2000) = Inr (PStr (take 2000 (drop (a * 2000) r)))" for a
    using py_slice_window [of r "a * 2000" 2000] by simp
  ultimately have "comprehension (\<lambda>i. getitem_slice (PStr r) i (i + 2000)) (py_range 0 (int (length r)) 2000)
      = Inr (map PStr (split_every 2000 r))"
    using split_every_map [of 2000 r, symmetric]
    by (simp add: comprehension_total comp_def)
  then show ?thesis
    by (simp add: send_response_def comp_def)
qed



lemma posted_request:
  "fst (call_deepseek_api post api_key model_name message_content conversation_history)
     = [build_request api_key model_name message_content conversation_history]"
  by (simp add: call_deepseek_api_def requests_post_def split: prod.splits)

lemma call_pair:
  "snd (call_deepseek_api post api_key model_name message_content conversation_history) = returned \<Longrightarrow>
   call_deepseek_api post api_key model_name message_content conversation_history
     = ([build_request api_key model_name message_content conversation_history], returned)"
  using posted_request [of post api_key model_name message_content conversation_history]
  by (simp add: prod_eq_iff)

lemma ask_deepseek_text:
  assumes "snd (call_deepseek_api post (DEEPSEEK_API_KEY st) (DEEPSEEK_MODEL st) question
             (Some (get_history (conversation_histories st) ch))) = Inr (PStr r)"
  shows "ask_deepseek post st ch question =
     (st\<lparr>conversation_histories :=
           update_conversation_history (conversation_histories st) ch (PStr question) (PStr r)\<rparr>,
      [TypingBegin ch,
       ApiCall (build_request (DEEPSEEK_API_KEY st) (DEEPSEEK_MODEL st) question
                  (Some (get_history (conversation_histories st) ch))),
       HistoryUpdated ch (PStr question) (PStr r)]
      @ map (\<lambda>t. Send ch (PStr t)) (if 2000 < length r then split_every 2000 r else [r])
      @ [TypingEnd ch],
      None)"
  using call_pair [OF assms] by (simp add: ask_deepseek_def Let_def send_response_text)




section \<open>Results of the completion client\<close>

lemma latin1_headers:
  "latin1 (authorization (build_request api_key model_name message_content conversation_history))
     = (case api_key of None \<Rightarrow> True | Some k \<Rightarrow> latin1 k)"
  "latin1 (content_type (build_request api_key model_name message_content conversation_history))"
  by (simp_all add: build_request_def latin1_def split: option.splits)

lemma call_answering:
  "(case api_key of None \<Rightarrow> True | Some k \<Rightarrow> latin1 k) \<Longrightarrow>
   snd (call_deepseek_api (answering v) api_key model_name message_content conversation_history) = Inr v"
  by (simp add: call_deepseek_api_def answering_def completion_body_def requests_post_def
      latin1_headers raise_for_status_def response_json_def and_then_def index_of_def)

lemma call_connection_failed:
  "post (build_request api_key model_name message_content conversation_history) = ConnectionFailed \<Longrightarrow>
   snd (call_deepseek_api post api_key model_name message_content conversation_history)
     = Inr (PStr contacting_error)"
  by (simp add: call_deepseek_api_def requests_post_def and_then_def)

lemma call_key_not_latin1:
  "post (build_request (Some k) model_name message_content conversation_history) = Returned r \<Longrightarrow>
   \<not> latin1 k \<Longrightarrow>
   snd (call_deepseek_api post (Some k) model_name message_content conversation_history)
     = Inl UnicodeEncodeError"
  by (simp add: call_deepseek_api_def requests_post_def latin1_headers and_then_def)

lemma call_error_status:
  "post (build_request api_key model_name message_content conversation_history) = Returned r \<Longrightarrow>
   (case api_key of None \<Rightarrow> True | Some k \<Rightarrow> latin1 k) \<Longrightarrow>
   400 \<le> status_code r \<Longrightarrow> status_code r < 600 \<Longrightarrow>
   snd (call_deepseek_api post api_key model_name message_content conversation_history)
     = Inr (PStr contacting_error)"
  by (simp add: call_deepseek_api_def requests_post_def latin1_headers raise_for_status_def
      and_then_def)

lemma call_not_json:
  "post (build_request api_key model_name message_content conversation_history) = Returned r \<Longrightarrow>
   (case api_key of None \<Rightarrow> True | Some k \<Rightarrow> latin1 k) \<Longrightarrow>
   body r = None \<Longrightarrow>
   snd (call_deepseek_api post api_key model_name message_content conversation_history)
     = Inr (PStr contacting_error)"
  by (auto simp: call_deepseek_api_def requests_post_def latin1_headers raise_for_status_def
      response_json_def and_then_def)

lemma call_missing_choices:
  "post (build_request api_key model_name message_content conversation_history) = Returned r \<Longrightarrow>
   (case api_key of None \<Rightarrow> True | Some k \<Rightarrow> latin1 k) \<Longrightarrow>
   \<not> (400 \<le> status_code r \<and> status_code r < 600) \<Longrightarrow>
   body r = Some (PDict kvs) \<Longrightarrow> map_of kvs (str ''choices'') = None \<Longrightarrow>
   snd (call_deepseek_api post api_key model_name message_content conversation_history)
     = Inr (PStr parsing_error)"
  by (auto simp: call_deepseek_api_def requests_post_def latin1_headers raise_for_status_def
      response_json_def and_then_def)

lemma call_empty_choices:
  "post (build_request api_key model_name message_content conversation_history) = Returned r \<Longrightarrow>
   (case api_key of None \<Rightarrow> True | Some k \<Rightarrow> latin1 k) \<Longrightarrow>
   \<not> (400 \<le> status_code r \<and> status_code r < 600) \<Longrightarrow>
   body r = Some (PDict kvs) \<Longrightarrow> map_of kvs (str ''choices'') = Some (PList []) \<Longrightarrow>
   snd (call_deepseek_api post api_key model_name message_content conversation_history)
     = Inr (PStr parsing_error)"
  by (auto simp: call_deepseek_api_def requests_post_def latin1_headers raise_for_status_def
      response_json_def and_then_def index_of_def)


section \<open>The claims about the reply\<close>





section \<open>The order of the store update and the sends\<close>

lemma ask_deepseek_returned:
  assumes "snd (call_deepseek_api post (DEEPSEEK_API_KEY st) (DEEPSEEK_MODEL st) question
             (Some (get_history (conversation_histories st) ch))) = Inr response"
  shows "\<exists>evs raised. ask_deepseek post st ch question =
     (st\<lparr>conversation_histories :=
           update_conversation_history (conversation_histories st) ch (PStr question) response\<rparr>,
      TypingBegin ch
      # ApiCall (build_request (DEEPSEEK_API_KEY st) (DEEPSEEK_MODEL st) question
                  (Some (get_history (conversation_histories st) ch)))
      # HistoryUpdated ch (PStr question) response # evs,
      raised)"
  using call_pair [OF assms] by (simp add: ask_deepseek_def Let_def split: prod.splits)

lemma ask_deepseek_raised:
  assumes "snd (call_deepseek_api post (DEEPSEEK_API_KEY st) (DEEPSEEK_MODEL st) question
             (Some (get_history (conversation_histories st) ch))) = Inl e"
  shows "ask_deepseek post st ch question =
     (st,
      [TypingBegin ch,
       ApiCall (build_request (DEEPSEEK_API_KEY st) (DEEPSEEK_MODEL st) question
                  (Some (get_history (conversation_histories st) ch))),
       TypingEnd ch],
      Some e)"
  using call_pair [OF assms] by (simp add: ask_deepseek_def Let_def)

text \<open>
  C5, as the claim states it, fails: the store is updated after the sends. A service
  answers \<open>Hello!\<close> to the question \<open>hi\<close> asked in channel 7 of a bot that has just
  started; the handler updates the store and then sends the reply.
\<close>

theorem update_after_sends_counterexample:
  "fst (snd (ask_deepseek (answering (PStr (str ''Hello!'')))
               (initial_state None (str ''deepseek-chat'')) 7 (str ''hi'')))
     = [TypingBegin 7,
        ApiCall (build_request None (str ''deepseek-chat'') (str ''hi'') (Some [])),
        HistoryUpdated 7 (PStr (str ''hi'')) (PStr (str ''Hello!'')),
        Send 7 (PStr (str ''Hello!'')),
        TypingEnd 7]
   \<and> \<not> update_after_sends (fst (snd (ask_deepseek (answering (PStr (str ''Hello!'')))
               (initial_state None (str ''deepseek-chat'')) 7 (str ''hi''))))"
proof -
  have "ask_deepseek (answering (PStr (str ''Hello!'')))
               (initial_state None (str ''deepseek-chat'')) 7 (str ''hi'')
     = (initial_state None (str ''deepseek-chat'')
          \<lparr>conversation_histories := update_conversation_history Map.empty 7 (PStr (str ''hi'')) (PStr (str ''Hello!''))\<rparr>,
        [TypingBegin 7,
        ApiCall (build_request None (str ''deepseek-chat'') (str ''hi'') (Some [])),
        HistoryUpdated 7 (PStr (str ''hi'')) (PStr (str ''Hello!'')),
        Send 7 (PStr (str ''Hello!'')),
        TypingEnd 7], None)"
    using ask_deepseek_text [of "answering (PStr (str ''Hello!''))" "initial_state None (str ''deepseek-chat'')" "str ''hi''" 7 "str ''Hello!''"]
    by (simp add: call_answering initial_state_def) (simp add: initial_state_def get_history_def)
  then show ?thesis by simp
qed

text \<open>
  C5, amended. Whenever the completion client returns a reply, the ask handler updates
  the Conversation Store with the pair (question, reply) before it sends anything: no
  message is sent until the update, and the store of the resulting state is the
  updated one.
\<close>

theorem update_precedes_sends:
  assumes "snd (call_deepseek_api post (DEEPSEEK_API_KEY st) (DEEPSEEK_MODEL st) question
             (Some (get_history (conversation_histories st) ch))) = Inr response"
  shows "update_before_sends (fst (snd (ask_deepseek post st ch question)))
       \<and> conversation_histories (fst (ask_deepseek post st ch question))
           = update_conversation_history (conversation_histories st) ch (PStr question) response"
proof -
  from ask_deepseek_returned [OF assms] obtain evs raised where
    "ask_deepseek post st ch question =
     (st\<lparr>conversation_histories :=
           update_conversation_history (conversation_histories st) ch (PStr question) response\<rparr>,
      TypingBegin ch
      # ApiCall (build_request (DEEPSEEK_API_KEY st) (DEEPSEEK_MODEL st) question
                  (Some (get_history (conversation_histories st) ch)))
      # HistoryUpdated ch (PStr question) response # evs,
      raised)"
    by blast
  then show ?thesis by simp
qed

theorem update_precedes_sends_witness:
  "snd (call_deepseek_api (answering (PStr (str ''Hello!'')))
     (DEEPSEEK_API_KEY (initial_state None (str ''deepseek-chat'')))
     (DEEPSEEK_MODEL (initial_state None (str ''deepseek-chat''))) (str ''hi'')
     (Some (get_history (conversation_histories (initial_state None (str ''deepseek-chat''))) 7)))
     = Inr (PStr (str ''Hello!''))
   \<and> update_before_sends (fst (snd (ask_deepseek (answering (PStr (str ''Hello!'')))
                        (initial_state None (str ''deepseek-chat'')) 7 (str ''hi''))))
   \<and> conversation_histories (fst (ask_deepseek (answering (PStr (str ''Hello!'')))
                        (initial_state None (str ''deepseek-chat'')) 7 (str ''hi''))) 7
       = Some [\<lparr>role = User, content = PStr (str ''hi'')\<rparr>,
               \<lparr>role = Assistant, content = PStr (str ''Hello!'')\<rparr>]"
proof -
  have h: "snd (call_deepseek_api (answering (PStr (str ''Hello!'')))
     (DEEPSEEK_API_KEY (initial_state None (str ''deepseek-chat'')))
     (DEEPSEEK_MODEL (initial_state None (str ''deepseek-chat''))) (str ''hi'')
     (Some (get_history (conversation_histories (initial_state None (str ''deepseek-chat''))) 7)))
     = Inr (PStr (str ''Hello!''))"
    by (rule call_answering) (simp add: initial_state_def)
  from h update_precedes_sends [OF h] show ?thesis
    by (simp add: initial_state_def update_conversation_history_def)
qed

section \<open>The request of the completion client\<close>

lemma api_calls_append: "api_calls (xs @ ys) = api_calls xs @ api_calls ys"
  by (induction xs rule: api_calls.induct) auto

lemma api_calls_map_Send: "api_calls (map (Send ch) vs) = []"
  by (induction vs) auto

lemma send_response_sends: "\<exists>vs. fst (send_response ch v) = map (Send ch) vs"
proof (cases "py_len v")
  case (Inl e)
  then show ?thesis by (simp add: send_response_def)
next
  case (Inr n)
  show ?thesis
  proof (cases "2000 < n")
    case True
    then show ?thesis
      using Inr by (cases "comprehension (\<lambda>i. getitem_slice v i (i + 2000)) (py_range 0 (int n) 2000)")
        (auto simp: send_response_def)
  next
    case False
    then have "fst (send_response ch v) = map (Send ch) [v]"
      using Inr by (simp add: send_response_def)
    then show ?thesis by blast
  qed
qed

lemma api_calls_send_response: "api_calls (fst (send_response ch v)) = []"
  using send_response_sends [of ch v] by (auto simp: api_calls_map_Send)

lemma api_calls_map_ApiCall: "api_calls (map ApiCall reqs) = reqs"
  by (induction reqs) auto

lemma api_calls_ask_deepseek:
  "api_calls (fst (snd (ask_deepseek post st ch question)))
     = fst (call_deepseek_api post (DEEPSEEK_API_KEY st) (DEEPSEEK_MODEL st) question
              (Some (get_history (conversation_histories st) ch)))"
proof (cases "call_deepseek_api post (DEEPSEEK_API_KEY st) (DEEPSEEK_MODEL st) question
              (Some (get_history (conversation_histories st) ch))")
  case (Pair posted returned)
  show ?thesis
  proof (cases returned)
    case (Inl e)
    with Pair show ?thesis
      by (simp add: ask_deepseek_def Let_def api_calls_append api_calls_map_ApiCall)
  next
    case (Inr response)
    with Pair show ?thesis
      using api_calls_send_response [of ch response]
      by (auto simp: ask_deepseek_def Let_def api_calls_append api_calls_map_ApiCall
          split: prod.splits)
  qed
qed

lemma build_messages_history:
  "build_messages promptText (Some priorTurns) = priorTurns @ [\<lparr>role = User, content = PStr promptText\<rparr>]"
  by (simp add: build_messages_def)

lemma json_build_request:
  "json (build_request api_key model_name promptText (Some priorTurns))
     = \<lparr>model = model_name,
        messages = priorTurns @ [\<lparr>role = User, content = PStr promptText\<rparr>],
        temperature = 0.7,
        max_tokens = 2000\<rparr>"
  by (simp add: build_request_def build_messages_history)

text \<open>
  C3. For every prompt text and every sequence of prior turns, empty or not, the
  completion client posts exactly one request, and the body of that request holds the
  model name the client is given, the prior turns in their order followed by one user
  turn with the prompt text, the temperature 0.7 and 2000 as \<open>max_tokens\<close>. What the
  client returns depends on the service only through the answer to a request with that
  body. The one request that the ask handler causes is the client's, with the current
  model selection and the stored history of the channel.
\<close>

theorem completion_request:
  "map json (fst (call_deepseek_api post api_key model_name promptText (Some priorTurns)))
     = [\<lparr>model = model_name,
         messages = priorTurns @ [\<lparr>role = User, content = PStr promptText\<rparr>],
         temperature = 0.7,
         max_tokens = 2000\<rparr>]
   \<and> snd (call_deepseek_api post api_key model_name promptText (Some priorTurns))
       = snd (call_deepseek_api
                (\<lambda>req. if json req = \<lparr>model = model_name,
                                      messages = priorTurns @ [\<lparr>role = User, content = PStr promptText\<rparr>],
                                      temperature = 0.7,
                                      max_tokens = 2000\<rparr>
                       then post req else ConnectionFailed)
                api_key model_name promptText (Some priorTurns))
   \<and> map json (api_calls (fst (snd (ask_deepseek post st ch promptText))))
       = [\<lparr>model = DEEPSEEK_MODEL st,
           messages = get_history (conversation_histories st) ch
                        @ [\<lparr>role = User, content = PStr promptText\<rparr>],
           temperature = 0.7,
           max_tokens = 2000\<rparr>]"
proof (intro conjI)
  show "map json (fst (call_deepseek_api post api_key model_name promptText (Some priorTurns)))
     = [\<lparr>model = model_name,
         messages = priorTurns @ [\<lparr>role = User, content = PStr promptText\<rparr>],
         temperature = 0.7,
         max_tokens = 2000\<rparr>]"
    by (simp only: posted_request list.map json_build_request)
  show "snd (call_deepseek_api post api_key model_name promptText (Some priorTurns))
       = snd (call_deepseek_api
                (\<lambda>req. if json req = \<lparr>model = model_name,
                                      messages = priorTurns @ [\<lparr>role = User, content = PStr promptText\<rparr>],
                                      temperature = 0.7,
                                      max_tokens = 2000\<rparr>
                       then post req else ConnectionFailed)
                api_key model_name promptText (Some priorTurns))"
    by (simp add: call_deepseek_api_def requests_post_def json_build_request split: prod.splits)
  show "map json (api_calls (fst (snd (ask_deepseek post st ch promptText))))
       = [\<lparr>model = DEEPSEEK_MODEL st,
           messages = get_history (conversation_histories st) ch
                        @ [\<lparr>role = User, content = PStr promptText\<rparr>],
           temperature = 0.7,
           max_tokens = 2000\<rparr>]"
    by (simp only: api_calls_ask_deepseek posted_request list.map json_build_request)
qed

text \<open>
  A client given the model \<open>deepseek-chat\<close>, the prompt \<open>more\<close> and one earlier
  exchange, in front of a service that answers nothing but the request with the body
  that the claim describes: the client returns the answer of the service.
\<close>

theorem completion_request_witness:
  "map json (fst (call_deepseek_api (answering (PStr (str ''More!''))) None (str ''deepseek-chat'') (str ''more'')
       (Some (turns_of [(PStr (str ''hi''), PStr (str ''Hello!''))]))))
     = [\<lparr>model = str ''deepseek-chat'',
         messages = [\<lparr>role = User, content = PStr (str ''hi'')\<rparr>,
                     \<lparr>role = Assistant, content = PStr (str ''Hello!'')\<rparr>,
                     \<lparr>role = User, content = PStr (str ''more'')\<rparr>],
         temperature = 0.7,
         max_tokens = 2000\<rparr>]
   \<and> snd (call_deepseek_api
            (\<lambda>req. if json req = \<lparr>model = str ''deepseek-chat'',
                                  messages = turns_of [(PStr (str ''hi''), PStr (str ''Hello!''))]
                                               @ [\<lparr>role = User, content = PStr (str ''more'')\<rparr>],
                                  temperature = 0.7,
                                  max_tokens = 2000\<rparr>
                   then answering (PStr (str ''More!'')) req else ConnectionFailed)
            None (str ''deepseek-chat'') (str ''more'')
            (Some (turns_of [(PStr (str ''hi''), PStr (str ''Hello!''))])))
       = Inr (PStr (str ''More!''))"
proof -
  have "snd (call_deepseek_api (answering (PStr (str ''More!''))) None (str ''deepseek-chat'') (str ''more'')
       (Some (turns_of [(PStr (str ''hi''), PStr (str ''Hello!''))]))) = Inr (PStr (str ''More!''))"
    by (rule call_answering) simp
  with completion_request [of "answering (PStr (str ''More!''))" None "str ''deepseek-chat''" "str ''more''"
      "turns_of [(PStr (str ''hi''), PStr (str ''Hello!''))]"]
  show ?thesis by simp
qed

section \<open>The clear command\<close>

text \<open>
  C6. In every state, the clear command leaves the invoking channel without an entry
  in the store and leaves the entry of every other channel, the model selection and
  the API key as they were. When the channel had an entry the reply is the
  confirmation; when it had none the state is unchanged and the reply says that there
  is nothing to clear.
\<close>

theorem clear_frame:
  "(let (st', evs) = dispatch w st ch Clear in
      conversation_histories st' ch = None
    \<and> (\<forall>c. c \<noteq> ch \<longrightarrow> conversation_histories st' c = conversation_histories st c)
    \<and> DEEPSEEK_MODEL st' = DEEPSEEK_MODEL st
    \<and> DEEPSEEK_API_KEY st' = DEEPSEEK_API_KEY st
    \<and> (ch \<in> dom (conversation_histories st) \<longrightarrow>
          evs = [Send ch (PStr (str ''Conversation history cleared!''))])
    \<and> (ch \<notin> dom (conversation_histories st) \<longrightarrow>
          st' = st \<and> evs = [Send ch (PStr (str ''No conversation history to clear.''))]))"
  by (auto simp: dispatch_def clear_history_def)

text \<open>
  Clearing channel 7 when channels 7 and 8 hold one exchange each, and clearing it in
  a bot that has just started.
\<close>

theorem clear_frame_witness:
  "(let (st', evs) = dispatch \<lparr>service = answering PNone, error_text = (\<lambda>e. [])\<rparr>
        \<lparr>DEEPSEEK_API_KEY = None, DEEPSEEK_MODEL = str ''deepseek-chat'',
         conversation_histories = [7 \<mapsto> turns_of [(PStr (str ''hi''), PStr (str ''Hello!''))],
                                   8 \<mapsto> turns_of [(PStr (str ''bye''), PStr (str ''Bye!''))]]\<rparr> 7 Clear in
      conversation_histories st' 7 = None
      \<and> conversation_histories st' 8 = Some (turns_of [(PStr (str ''bye''), PStr (str ''Bye!''))])
      \<and> evs = [Send 7 (PStr (str ''Conversation history cleared!''))])
   \<and> dispatch \<lparr>service = answering PNone, error_text = (\<lambda>e. [])\<rparr>
        (initial_state None (str ''deepseek-chat'')) 7 Clear
       = (initial_state None (str ''deepseek-chat''),
          [Send 7 (PStr (str ''No conversation history to clear.''))])"
  using clear_frame [of "\<lparr>service = answering PNone, error_text = (\<lambda>e. [])\<rparr>"
      "\<lparr>DEEPSEEK_API_KEY = None, DEEPSEEK_MODEL = str ''deepseek-chat'',
         conversation_histories = [7 \<mapsto> turns_of [(PStr (str ''hi''), PStr (str ''Hello!''))],
                                   8 \<mapsto> turns_of [(PStr (str ''bye''), PStr (str ''Bye!''))]]\<rparr>" 7]
    clear_frame [of "\<lparr>service = answering PNone, error_text = (\<lambda>e. [])\<rparr>"
      "initial_state None (str ''deepseek-chat'')" 7]
  by (auto simp: initial_state_def split: prod.splits)

section \<open>The ask command without a question\<close>

lemma rest_argument_blank: "(\<forall>c \<in> set rest. py_isspace c) \<Longrightarrow> rest_argument rest = None"
  by (simp add: rest_argument_def)

text \<open>
  C8. An ask command whose trailing text is empty or white space only is answered with
  the usage hint and nothing else: the state, and with it the Conversation Store, is
  unchanged, and no request is posted to the completion service.
\<close>

theorem ask_without_question:
  assumes "\<forall>c \<in> set rest. py_isspace c"
  shows "dispatch w st ch (Ask rest) = (st, [Send ch (PStr usage_hint)])
       \<and> api_calls (snd (dispatch w st ch (Ask rest))) = []"
  using rest_argument_blank [OF assms] by (simp add: dispatch_def on_command_error_def)

text \<open>The command with nothing after its name, and with two spaces after it.\<close>

theorem ask_without_question_witness:
  "list_all py_isspace (str ''  '')
   \<and> dispatch \<lparr>service = answering PNone, error_text = (\<lambda>e. [])\<rparr>
        (initial_state None (str ''deepseek-chat'')) 7 (Ask (str ''  ''))
       = (initial_state None (str ''deepseek-chat''), [Send 7 (PStr usage_hint)])
   \<and> list_all py_isspace (str '''')
   \<and> dispatch \<lparr>service = answering PNone, error_text = (\<lambda>e. [])\<rparr>
        (initial_state None (str ''deepseek-chat'')) 7 (Ask (str ''''))
       = (initial_state None (str ''deepseek-chat''), [Send 7 (PStr usage_hint)])"
proof -
  have h: "\<forall>c \<in> set (str ''  ''). py_isspace c" by (simp add: py_isspace_def)
  have h0: "\<forall>c \<in> set (str ''''). py_isspace c" by simp
  have "list_all py_isspace (str ''  '')" and "list_all py_isspace (str '''')"
    by (simp_all add: py_isspace_def)
  then show ?thesis
    using ask_without_question [OF h, of "\<lparr>service = answering PNone, error_text = (\<lambda>e. [])\<rparr>"
      "initial_state None (str ''deepseek-chat'')" 7]
    ask_without_question [OF h0, of "\<lparr>service = answering PNone, error_text = (\<lambda>e. [])\<rparr>"
      "initial_state None (str ''deepseek-chat'')" 7]
    by simp
qed

section \<open>The model selection\<close>

lemma ask_deepseek_state:
  "fst (ask_deepseek post st ch question) = st
   \<or> (\<exists>response. fst (ask_deepseek post st ch question)
         = st\<lparr>conversation_histories :=
                update_conversation_history (conversation_histories st) ch (PStr question) response\<rparr>)"
proof (cases "snd (call_deepseek_api post (DEEPSEEK_API_KEY st) (DEEPSEEK_MODEL st) question
             (Some (get_history (conversation_histories st) ch)))")
  case (Inl e)
  then show ?thesis by (simp add: ask_deepseek_raised)
next
  case (Inr response)
  from ask_deepseek_returned [OF Inr] show ?thesis by auto
qed

lemma dispatch_Ask_state:
  "fst (dispatch w st ch (Ask rest)) = st
   \<or> (\<exists>question response. fst (dispatch w st ch (Ask rest))
         = st\<lparr>conversation_histories :=
                update_conversation_history (conversation_histories st) ch (PStr question) response\<rparr>)"
proof (cases "rest_argument rest")
  case None
  then show ?thesis by (simp add: dispatch_def)
next
  case (Some question)
  have "fst (dispatch w st ch (Ask rest)) = fst (ask_deepseek (service w) st ch question)"
    using Some by (simp add: dispatch_def split: prod.splits option.splits)
  with ask_deepseek_state [of "service w" st ch question] show ?thesis by auto
qed

lemma api_calls_on_command_error: "api_calls (on_command_error t ch e) = []"
  by (simp add: on_command_error_def)

lemma dispatch_Ask_api_calls:
  "req \<in> set (api_calls (snd (dispatch w st ch (Ask rest)))) \<Longrightarrow> model (json req) = DEEPSEEK_MODEL st"
proof (cases "rest_argument rest")
  case None
  assume "req \<in> set (api_calls (snd (dispatch w st ch (Ask rest))))"
  with None show ?thesis by (simp add: dispatch_def api_calls_on_command_error)
next
  case (Some question)
  assume req: "req \<in> set (api_calls (snd (dispatch w st ch (Ask rest))))"
  have "api_calls (snd (dispatch w st ch (Ask rest)))
      = api_calls (fst (snd (ask_deepseek (service w) st ch question)))"
    using Some
    by (simp add: dispatch_def api_calls_append api_calls_on_command_error
        split: prod.splits option.splits)
  with req show ?thesis by (simp add: api_calls_ask_deepseek posted_request build_request_def)
qed

lemma dispatch_model:
  "\<not> changes_model cmd \<Longrightarrow> DEEPSEEK_MODEL (fst (dispatch w st ch cmd)) = DEEPSEEK_MODEL st"
proof (cases cmd)
  case (Ask rest)
  with dispatch_Ask_state [of w st ch rest] show ?thesis by auto
next
  case Clear
  then show ?thesis by (simp add: dispatch_def clear_history_def)
next
  case (SetModel arg)
  assume "\<not> changes_model cmd"
  with SetModel show ?thesis by (cases arg) (simp_all add: dispatch_def)
next
  case Help
  then show ?thesis by (simp add: dispatch_def)
qed

lemma dispatch_api_calls:
  "req \<in> set (api_calls (snd (dispatch w st ch cmd))) \<Longrightarrow> model (json req) = DEEPSEEK_MODEL st"
proof (cases cmd)
  case (Ask rest)
  assume "req \<in> set (api_calls (snd (dispatch w st ch cmd)))"
  with Ask show ?thesis by (simp add: dispatch_Ask_api_calls)
next
  case Clear
  assume "req \<in> set (api_calls (snd (dispatch w st ch cmd)))"
  with Clear show ?thesis by (simp add: dispatch_def clear_history_def split: if_splits)
next
  case (SetModel arg)
  assume "req \<in> set (api_calls (snd (dispatch w st ch cmd)))"
  with SetModel show ?thesis
    by (cases arg) (simp_all add: dispatch_def set_model_def api_calls_on_command_error)
next
  case Help
  assume "req \<in> set (api_calls (snd (dispatch w st ch cmd)))"
  with Help show ?thesis by (simp add: dispatch_def bot_help_def)
qed

lemma run_api_calls:
  "\<forall>(w, ch, cmd) \<in> set cmds. \<not> changes_model cmd \<Longrightarrow>
   req \<in> set (api_calls (snd (run st cmds))) \<Longrightarrow> model (json req) = DEEPSEEK_MODEL st"
proof (induction cmds arbitrary: st)
  case Nil
  then show ?case by simp
next
  case (Cons step cmds)
  obtain w ch cmd where step: "step = (w, ch, cmd)" by (cases step)
  let ?st1 = "fst (dispatch w st ch cmd)"
  from Cons.prems(1) step have keep: "\<not> changes_model cmd"
    and later: "\<forall>(w, ch, cmd) \<in> set cmds. \<not> changes_model cmd"
    by auto
  have "api_calls (snd (run st (step # cmds)))
      = api_calls (snd (dispatch w st ch cmd)) @ api_calls (snd (run ?st1 cmds))"
    by (simp add: step api_calls_append split: prod.splits)
  with Cons.prems(2) consider "req \<in> set (api_calls (snd (dispatch w st ch cmd)))"
    | "req \<in> set (api_calls (snd (run ?st1 cmds)))"
    by auto
  then show ?case
  proof cases
    case 1
    then show ?thesis by (rule dispatch_api_calls)
  next
    case 2
    with Cons.IH [OF later] have "model (json req) = DEEPSEEK_MODEL ?st1" by simp
    with dispatch_model [OF keep] show ?thesis by simp
  qed
qed

lemma length_api_calls_dispatch:
  "length (api_calls (snd (dispatch w st ch cmd))) = (if asks_question cmd then 1 else 0)"
proof (cases cmd)
  case (Ask rest)
  show ?thesis
  proof (cases "rest_argument rest")
    case None
    with Ask show ?thesis by (simp add: dispatch_def api_calls_on_command_error)
  next
    case (Some question)
    have "api_calls (snd (dispatch w st ch (Ask rest)))
        = api_calls (fst (snd (ask_deepseek (service w) st ch question)))"
      using Some
      by (simp add: dispatch_def api_calls_append api_calls_on_command_error
          split: prod.splits option.splits)
    with Ask Some show ?thesis by (simp add: api_calls_ask_deepseek posted_request)
  qed
next
  case Clear
  then show ?thesis by (simp add: dispatch_def clear_history_def)
next
  case (SetModel arg)
  then show ?thesis
    by (cases arg) (simp_all add: dispatch_def set_model_def api_calls_on_command_error)
next
  case Help
  then show ?thesis by (simp add: dispatch_def bot_help_def)
qed

lemma length_api_calls_run:
  "length (api_calls (snd (run st cmds))) = length (filter (\<lambda>(w, ch, cmd). asks_question cmd) cmds)"
proof (induction cmds arbitrary: st)
  case Nil
  then show ?case by simp
next
  case (Cons step cmds)
  obtain w ch cmd where step: "step = (w, ch, cmd)" by (cases step)
  have "api_calls (snd (run st (step # cmds)))
      = api_calls (snd (dispatch w st ch cmd)) @ api_calls (snd (run (fst (dispatch w st ch cmd)) cmds))"
    by (simp add: step api_calls_append split: prod.splits)
  then show ?case
    by (simp add: step Cons.IH length_api_calls_dispatch)
qed

text \<open>
  C7. The model command with a name, once the framework has bound it, assigns the one
  model selection of the process to that name, confirms it, and leaves every stored
  conversation as it is. From then on, whatever commands follow in whatever channels,
  as long as none of them is a model command with a bound name, every ask command with
  a question makes the completion client post one request, no other command makes it
  post any, and every request it posts has that name as its model.
\<close>

theorem model_selection:
  assumes "\<forall>(w', c, cmd) \<in> set later. \<not> changes_model cmd"
  shows "(let (st1, evs1) = dispatch w st ch (SetModel (Bound name));
              (st2, evs2) = run st1 later
          in DEEPSEEK_MODEL st1 = name
           \<and> conversation_histories st1 = conversation_histories st
           \<and> evs1 = [Send ch (PStr (str ''Model set to: '' @ name))]
           \<and> length (api_calls evs2) = length (filter (\<lambda>(w', c, cmd). asks_question cmd) later)
           \<and> (\<forall>req \<in> set (api_calls evs2). model (json req) = name))"
proof -
  have "model (json req) = name"
    if "req \<in> set (api_calls (snd (run (st\<lparr>DEEPSEEK_MODEL := name\<rparr>) later)))" for req
    using run_api_calls [OF assms that] by simp
  moreover have "length (api_calls (snd (run (st\<lparr>DEEPSEEK_MODEL := name\<rparr>) later)))
      = length (filter (\<lambda>(w', c, cmd). asks_question cmd) later)"
    by (rule length_api_calls_run)
  ultimately show ?thesis
    by (auto simp: dispatch_def set_model_def split: prod.splits)
qed

text \<open>
  The model is set to \<open>deepseek-reasoner\<close> in channel 7; then a question is asked in
  channel 8, the history of channel 7 is cleared and a question is asked in channel 7
  while no connection can be made. Two requests are posted, both for
  \<open>deepseek-reasoner\<close>.
\<close>

theorem model_selection_witness:
  "list_all (\<lambda>(w', c, cmd). \<not> changes_model cmd)
      [(\<lparr>service = answering (PStr (str ''Hello!'')), error_text = (\<lambda>e. [])\<rparr>, 8 :: channel, Ask (str ''hi'')),
       (\<lparr>service = answering PNone, error_text = (\<lambda>e. [])\<rparr>, 7, Clear),
       (\<lparr>service = (\<lambda>req. ConnectionFailed), error_text = (\<lambda>e. [])\<rparr>, 7, Ask (str ''hi''))]
   \<and> dispatch \<lparr>service = answering PNone, error_text = (\<lambda>e. [])\<rparr>
         (initial_state None (str ''deepseek-chat'')) 7 (SetModel (Bound (str ''deepseek-reasoner'')))
       = (initial_state None (str ''deepseek-reasoner''),
          [Send 7 (PStr (str ''Model set to: deepseek-reasoner''))])
   \<and> map (\<lambda>req. model (json req))
         (api_calls (snd (run (initial_state None (str ''deepseek-reasoner''))
            [(\<lparr>service = answering (PStr (str ''Hello!'')), error_text = (\<lambda>e. [])\<rparr>, 8, Ask (str ''hi'')),
             (\<lparr>service = answering PNone, error_text = (\<lambda>e. [])\<rparr>, 7, Clear),
             (\<lparr>service = (\<lambda>req. ConnectionFailed), error_text = (\<lambda>e. [])\<rparr>, 7, Ask (str ''hi''))])))
       = [str ''deepseek-reasoner'', str ''deepseek-reasoner'']"
proof -
  let ?later = "[(\<lparr>service = answering (PStr (str ''Hello!'')), error_text = (\<lambda>e. [])\<rparr>, 8 :: channel, Ask (str ''hi'')),
       (\<lparr>service = answering PNone, error_text = (\<lambda>e. [])\<rparr>, 7, Clear),
       (\<lparr>service = (\<lambda>req. ConnectionFailed), error_text = (\<lambda>e. [])\<rparr>, 7, Ask (str ''hi''))]"
  let ?w = "\<lparr>service = answering PNone, error_text = (\<lambda>e. [])\<rparr>"
  let ?st = "initial_state None (str ''deepseek-chat'')"
  let ?name = "str ''deepseek-reasoner''"
  have h: "\<forall>(w', c, cmd) \<in> set ?later. \<not> changes_model cmd"
    by simp
  have set: "dispatch ?w ?st 7 (SetModel (Bound ?name))
      = (initial_state None ?name, [Send 7 (PStr (str ''Model set to: deepseek-reasoner''))])"
    by (simp add: dispatch_def set_model_def initial_state_def)
  have asked: "length (filter (\<lambda>(w', c, cmd). asks_question cmd) ?later) = 2"
    by (simp add: rest_argument_def py_strip_def py_isspace_def)
  note selected = model_selection [OF h, of ?w ?st 7 ?name,
      unfolded set asked Let_def prod.case split_beta fst_conv snd_conv]
  from selected have len: "length (api_calls (snd (run (initial_state None ?name) ?later))) = 2"
    by (elim conjE)
  from selected
  have all: "\<forall>req \<in> set (api_calls (snd (run (initial_state None ?name) ?later))). model (json req) = ?name"
    by (elim conjE)
  from len obtain a b where ab: "api_calls (snd (run (initial_state None ?name) ?later)) = [a, b]"
    by (auto simp: length_Suc_conv numeral_2_eq_2)
  with all have "map (\<lambda>req. model (json req)) (api_calls (snd (run (initial_state None ?name) ?later)))
      = [?name, ?name]"
    by simp
  moreover have "list_all (\<lambda>(w', c, cmd). \<not> changes_model cmd) ?later"
    by simp
  ultimately show ?thesis using set by (simp only: simp_thms)
qed

section \<open>The shape of the stored histories\<close>

lemma paired_even: "paired h \<Longrightarrow> even (length h)"
  by (induction h rule: paired.induct) auto

lemma paired_append: "paired xs \<Longrightarrow> paired ys \<Longrightarrow> paired (xs @ ys)"
  by (induction xs rule: paired.induct) auto

lemma paired_drop2: "paired xs \<Longrightarrow> paired (drop 2 xs)"
  by (induction xs rule: paired.induct) auto

lemma window_full:
  "length h = 20 \<Longrightarrow> most_recent 20 (h @ [u, a]) = drop 2 (h @ [u, a])"
  by (simp add: most_recent_drop)

lemma window_room:
  assumes "paired h" and "length h \<le> 20" and "length h \<noteq> 20"
  shows "most_recent 20 (h @ [u, a]) = h @ [u, a]"
proof -
  from assms paired_even [OF assms(1)] have "length h \<le> 18" by presburger
  then show ?thesis by (simp add: most_recent_drop)
qed

lemma window_step:
  assumes "paired h" and "length h \<le> 20"
  shows "most_recent 20 (h @ [u, a]) = drop (if length h = 20 then 2 else 0) (h @ [u, a])"
proof (cases "length h = 20")
  case True
  then show ?thesis by (simp add: most_recent_drop)
next
  case False
  with assms show ?thesis by (simp add: window_room)
qed

lemma update_keeps_pairs:
  assumes "paired h" and "length h \<le> 20"
  shows "paired (most_recent 20 (h @ [\<lparr>role = User, content = q\<rparr>, \<lparr>role = Assistant, content = r\<rparr>]))"
proof -
  let ?new = "h @ [\<lparr>role = User, content = q\<rparr>, \<lparr>role = Assistant, content = r\<rparr>]"
  have p: "paired ?new"
    using assms(1) by (intro paired_append) simp_all
  show ?thesis
  proof (cases "length h = 20")
    case True
    from paired_drop2 [OF p] show ?thesis
      unfolding window_full [OF True] .
  next
    case False
    from p show ?thesis
      unfolding window_room [OF assms False] .
  qed
qed

lemma update_invariant:
  assumes inv: "\<And>c h. s c = Some h \<Longrightarrow> paired h \<and> length h \<le> 20 \<and> h \<noteq> []"
    and new: "update_conversation_history s ch q r c = Some h"
  shows "paired h \<and> length h \<le> 20 \<and> h \<noteq> []"
proof (cases "c = ch")
  case False
  with new inv show ?thesis by (simp add: update_history_other)
next
  case True
  have old: "paired (get_history s ch) \<and> length (get_history s ch) \<le> 20"
    using inv [of ch] by (cases "s ch") (simp_all add: get_history_def)
  have "ch \<in> dom (update_conversation_history s ch q r)" by (rule update_history_dom)
  with new True have h: "h = get_history (update_conversation_history s ch q r) ch"
    by (simp add: get_history_def)
  then have eq: "h = most_recent 20 (get_history s ch @ [\<lparr>role = User, content = q\<rparr>, \<lparr>role = Assistant, content = r\<rparr>])"
    by (simp add: update_history)
  have "paired h" unfolding eq using old by (intro update_keeps_pairs) simp_all
  moreover have "length h \<le> 20" unfolding eq by (rule length_most_recent)
  moreover have "h \<noteq> []" unfolding eq by (simp add: most_recent_drop)
  ultimately show ?thesis by simp
qed

lemma dispatch_invariant:
  assumes inv: "\<And>c h. conversation_histories st c = Some h \<Longrightarrow> paired h \<and> length h \<le> 20 \<and> h \<noteq> []"
    and new: "conversation_histories (fst (dispatch w st ch cmd)) c = Some h"
  shows "paired h \<and> length h \<le> 20 \<and> h \<noteq> []"
proof (cases cmd)
  case (Ask rest)
  from dispatch_Ask_state [of w st ch rest] show ?thesis
  proof
    assume "fst (dispatch w st ch (Ask rest)) = st"
    with new Ask inv show ?thesis by simp
  next
    assume "\<exists>question response. fst (dispatch w st ch (Ask rest))
         = st\<lparr>conversation_histories :=
                update_conversation_history (conversation_histories st) ch (PStr question) response\<rparr>"
    then obtain question response where
      "fst (dispatch w st ch (Ask rest))
         = st\<lparr>conversation_histories :=
                update_conversation_history (conversation_histories st) ch (PStr question) response\<rparr>"
      by blast
    with new Ask have "update_conversation_history (conversation_histories st) ch (PStr question) response c = Some h"
      by simp
    with inv show ?thesis by (rule update_invariant)
  qed
next
  case Clear
  with new have "conversation_histories st c = Some h"
    by (simp add: dispatch_def clear_history_def split: if_splits)
  with inv show ?thesis by simp
next
  case (SetModel arg)
  with new have "conversation_histories st c = Some h"
    by (cases arg) (simp_all add: dispatch_def set_model_def)
  with inv show ?thesis by simp
next
  case Help
  with new inv show ?thesis by (simp add: dispatch_def)
qed

lemma run_invariant:
  assumes "\<And>c h. conversation_histories st c = Some h \<Longrightarrow> paired h \<and> length h \<le> 20 \<and> h \<noteq> []"
    and "conversation_histories (fst (run st cmds)) c = Some h"
  shows "paired h \<and> length h \<le> 20 \<and> h \<noteq> []"
  using assms
proof (induction cmds arbitrary: st)
  case Nil
  then show ?case by simp
next
  case (Cons step cmds)
  obtain w ch cmd where step: "step = (w, ch, cmd)" by (cases step)
  let ?st1 = "fst (dispatch w st ch cmd)"
  have run: "fst (run st (step # cmds)) = fst (run ?st1 cmds)"
    by (simp add: step split: prod.splits)
  have inv1: "paired h' \<and> length h' \<le> 20 \<and> h' \<noteq> []"
    if "conversation_histories ?st1 c' = Some h'" for c' h'
    using Cons.prems(1) that by (rule dispatch_invariant)
  from Cons.prems(2) run have "conversation_histories (fst (run ?st1 cmds)) c = Some h" by simp
  with inv1 show ?case by (rule Cons.IH)
qed

text \<open>
  C10. Start the bot and run any commands in any channels. Every history then held in
  the store is a non-empty sequence of (user, assistant) pairs, first the user turn and
  then the assistant turn, so its length is even, and it has at most 20 turns. The next
  update of that channel drops nothing when fewer than 20 turns are held, and drops
  exactly the two oldest turns, one whole pair, when 20 are held.
\<close>

theorem histories_paired:
  assumes "conversation_histories (fst (run (initial_state api_key model_name) cmds)) ch = Some h"
  shows "paired h \<and> even (length h) \<and> length h \<le> 20 \<and> h \<noteq> []
       \<and> (\<forall>q r. get_history (update_conversation_history
                     (conversation_histories (fst (run (initial_state api_key model_name) cmds))) ch q r) ch
                 = drop (if length h = 20 then 2 else 0)
                     (h @ [\<lparr>role = User, content = q\<rparr>, \<lparr>role = Assistant, content = r\<rparr>]))"
proof -
  let ?s = "conversation_histories (fst (run (initial_state api_key model_name) cmds))"
  have inv: "paired h \<and> length h \<le> 20 \<and> h \<noteq> []"
    using _ assms by (rule run_invariant) (simp add: initial_state_def)
  have old: "get_history ?s ch = h"
    using assms by (simp add: get_history_def)
  have step: "get_history (update_conversation_history ?s ch q r) ch
      = drop (if length h = 20 then 2 else 0)
          (h @ [\<lparr>role = User, content = q\<rparr>, \<lparr>role = Assistant, content = r\<rparr>])" for q r
    unfolding update_history old using inv by (intro window_step) simp_all
  from inv have "even (length h)" by (simp add: paired_even)
  with inv step show ?thesis by blast
qed

text \<open>One question asked in channel 7 of a bot that has just started, and a second update.\<close>

theorem histories_paired_witness:
  "conversation_histories
     (fst (run (initial_state None (str ''deepseek-chat''))
        [(\<lparr>service = answering (PStr (str ''Hello!'')), error_text = (\<lambda>e. [])\<rparr>, 7, Ask (str ''hi''))])) 7
     = Some [\<lparr>role = User, content = PStr (str ''hi'')\<rparr>, \<lparr>role = Assistant, content = PStr (str ''Hello!'')\<rparr>]
   \<and> paired [\<lparr>role = User, content = PStr (str ''hi'')\<rparr>, \<lparr>role = Assistant, content = PStr (str ''Hello!'')\<rparr>]
   \<and> get_history (update_conversation_history
         (conversation_histories
            (fst (run (initial_state None (str ''deepseek-chat''))
               [(\<lparr>service = answering (PStr (str ''Hello!'')), error_text = (\<lambda>e. [])\<rparr>, 7, Ask (str ''hi''))])))
         7 (PStr (str ''more'')) (PStr (str ''More!''))) 7
       = [\<lparr>role = User, content = PStr (str ''hi'')\<rparr>, \<lparr>role = Assistant, content = PStr (str ''Hello!'')\<rparr>,
          \<lparr>role = User, content = PStr (str ''more'')\<rparr>, \<lparr>role = Assistant, content = PStr (str ''More!'')\<rparr>]"
proof -
  let ?w = "\<lparr>service = answering (PStr (str ''Hello!'')), error_text = (\<lambda>e. [])\<rparr>"
  let ?st = "initial_state None (str ''deepseek-chat'')"
  have ra: "rest_argument (str ''hi'') = Some (str ''hi'')"
    by (simp add: rest_argument_def py_strip_def py_isspace_def)
  have "snd (call_deepseek_api (answering (PStr (str ''Hello!''))) (DEEPSEEK_API_KEY ?st) (DEEPSEEK_MODEL ?st)
          (str ''hi'') (Some (get_history (conversation_histories ?st) 7))) = Inr (PStr (str ''Hello!''))"
    by (rule call_answering) (simp add: initial_state_def)
  from ask_deepseek_returned [OF this] obtain evs raised where
    "ask_deepseek (answering (PStr (str ''Hello!''))) ?st 7 (str ''hi'')
      = (?st\<lparr>conversation_histories :=
             update_conversation_history (conversation_histories ?st) 7 (PStr (str ''hi'')) (PStr (str ''Hello!''))\<rparr>,
         TypingBegin 7
         # ApiCall (build_request (DEEPSEEK_API_KEY ?st) (DEEPSEEK_MODEL ?st) (str ''hi'')
                     (Some (get_history (conversation_histories ?st) 7)))
         # HistoryUpdated 7 (PStr (str ''hi'')) (PStr (str ''Hello!'')) # evs,
         raised)"
    by blast
  with ra have "fst (dispatch ?w ?st 7 (Ask (str ''hi'')))
      = ?st\<lparr>conversation_histories :=
             update_conversation_history (conversation_histories ?st) 7 (PStr (str ''hi'')) (PStr (str ''Hello!''))\<rparr>"
    by (cases raised) (simp_all add: dispatch_def)
  then have h: "conversation_histories (fst (run ?st [(?w, 7, Ask (str ''hi''))])) 7
     = Some [\<lparr>role = User, content = PStr (str ''hi'')\<rparr>, \<lparr>role = Assistant, content = PStr (str ''Hello!'')\<rparr>]"
    by (simp add: initial_state_def update_conversation_history_def split: prod.splits)
  from h histories_paired [OF h] show ?thesis by simp
qed

section \<open>An exception that leaves the completion client\<close>

text \<open>
  C2. The claim holds that no input makes \<open>call_deepseek_api\<close> raise, and the two
  handlers of the \<open>try\<close> block are there for that; they miss \<open>TypeError\<close>. The service
  answers with status 200 and the body \<open>{"choices": null}\<close>: subscripting \<open>None\<close> raises
  \<open>TypeError\<close>, which is neither a \<open>RequestException\<close> nor a \<open>KeyError\<close> or an
  \<open>IndexError\<close>, so the exception leaves the function and then the ask handler, before
  the store is updated and before anything is sent.
\<close>

theorem call_raises_TypeError:
  "snd (call_deepseek_api
     (\<lambda>req. Returned \<lparr>status_code = 200, body = Some (PDict [(str ''choices'', PNone)])\<rparr>)
     None (str ''deepseek-chat'') (str ''hi'') (Some [])) = Inl TypeError
   \<and> ask_deepseek
       (\<lambda>req. Returned \<lparr>status_code = 200, body = Some (PDict [(str ''choices'', PNone)])\<rparr>)
       (initial_state None (str ''deepseek-chat'')) 7 (str ''hi'')
     = (initial_state None (str ''deepseek-chat''),
        [TypingBegin 7,
         ApiCall (build_request None (str ''deepseek-chat'') (str ''hi'') (Some [])),
         TypingEnd 7],
        Some TypeError)"
proof -
  have call: "snd (call_deepseek_api
     (\<lambda>req. Returned \<lparr>status_code = 200, body = Some (PDict [(str ''choices'', PNone)])\<rparr>)
     None model_name message_content conversation_history) = Inl TypeError"
    for model_name message_content conversation_history
    by (simp add: call_deepseek_api_def requests_post_def latin1_headers raise_for_status_def
        response_json_def and_then_def)
  have eqs: "DEEPSEEK_API_KEY (initial_state None (str ''deepseek-chat'')) = None"
    "DEEPSEEK_MODEL (initial_state None (str ''deepseek-chat'')) = str ''deepseek-chat''"
    "get_history (conversation_histories (initial_state None (str ''deepseek-chat''))) 7 = []"
    by (simp_all add: initial_state_def get_history_def)
  have "snd (call_deepseek_api
     (\<lambda>req. Returned \<lparr>status_code = 200, body = Some (PDict [(str ''choices'', PNone)])\<rparr>)
     (DEEPSEEK_API_KEY (initial_state None (str ''deepseek-chat'')))
     (DEEPSEEK_MODEL (initial_state None (str ''deepseek-chat''))) (str ''hi'')
     (Some (get_history (conversation_histories (initial_state None (str ''deepseek-chat''))) 7)))
     = Inl TypeError"
    unfolding eqs by (rule call)
  from ask_deepseek_raised [OF this]
  have "ask_deepseek
       (\<lambda>req. Returned \<lparr>status_code = 200, body = Some (PDict [(str ''choices'', PNone)])\<rparr>)
       (initial_state None (str ''deepseek-chat'')) 7 (str ''hi'')
     = (initial_state None (str ''deepseek-chat''),
        [TypingBegin 7,
         ApiCall (build_request None (str ''deepseek-chat'') (str ''hi'') (Some [])),
         TypingEnd 7],
        Some TypeError)"
    unfolding eqs .
  with call [of "str ''deepseek-chat''" "str ''hi''" "Some []"] show ?thesis
    by (rule conjI)
qed

end
